theory Spec2Isabelle
  imports Main "HOL-Library.Word"
begin

section \<open>The option handling of grpc_zerolog (options.go)\<close>

text \<open>
  The file declares the loggable events, two default decision functions, the record of
  options behind a package-level pointer, three constructors of override closures and
  \<open>evaluateOptions\<close>, which copies the defaults into a fresh record and runs the closures
  on the copy. The closures write through a pointer, so the model keeps an explicit heap
  of \<open>options\<close> records: that the copy is private is then a statement about the heap and
  not a consequence of the modelling language.
\<close>

subsection \<open>Values\<close>

text \<open>
  \<open>type LoggableEvent uint\<close> with four constants numbered by \<open>iota\<close>. Any unsigned
  integer is a value of the type; the constants are 0 to 3 (64 bits, the width of
  \<open>uint\<close> on 64-bit targets; nothing below depends on the width).
\<close>

type_synonym LoggableEvent = "64 word"

definition StartCall :: LoggableEvent where
  "StartCall = 0"

definition FinishCall :: LoggableEvent where
  "FinishCall = 1"

definition PayloadReceived :: LoggableEvent where
  "PayloadReceived = 2"

definition PayloadSent :: LoggableEvent where
  "PayloadSent = 3"

text \<open>
  Status codes and log levels belong to the imported packages
  \<open>google.golang.org/grpc/codes\<close> (\<open>type Code uint32\<close>) and
  \<open>github.com/rs/zerolog\<close> (\<open>type Level int8\<close>), which are not part of this repository.
  The source uses three of their constants: \<open>codes.OK\<close>, \<open>zerolog.InfoLevel\<close> and
  \<open>zerolog.ErrorLevel\<close>. They are written with the integer types and the values of those
  packages; \<open>NotFound\<close> is added for the example of the specification. The development
  uses of these values only that they are distinct.
\<close>

type_synonym Code = "32 word"

definition OK :: Code where
  "OK = 0"

definition NotFound :: Code where
  "NotFound = 5"

type_synonym Level = "8 word"

definition InfoLevel :: Level where
  "InfoLevel = 1"

definition ErrorLevel :: Level where
  "ErrorLevel = 3"

text \<open>
  A Go \<open>error\<close> is an interface value: \<open>nil\<close> or an error, of which the model keeps the
  message.
\<close>

type_synonym error = "string option"

text \<open>
  A value of a Go function type is \<open>nil\<close> or a function; calling \<open>nil\<close> panics.
  \<open>options.go\<close> stores values of the types \<open>CodeToLevel\<close> and \<open>Decider\<close> and never
  calls them; \<open>call_CodeToLevel\<close> and \<open>call_Decider\<close> are Go's call of such a value,
  used to say what a stored function returns.
\<close>

datatype panic =
  NilDereference  \<comment> \<open>invalid memory address or nil pointer dereference\<close>
| InvalidAddress  \<comment> \<open>an address outside the heap: no Go pointer has one\<close>

type_synonym CodeToLevel = "(Code \<Rightarrow> Level) option"

type_synonym Decider = "(string \<Rightarrow> error \<Rightarrow> bool) option"

definition call_CodeToLevel :: "CodeToLevel \<Rightarrow> Code \<Rightarrow> panic + Level" where
  "call_CodeToLevel f code = (case f of None \<Rightarrow> Inl NilDereference | Some g \<Rightarrow> Inr (g code))"

definition call_Decider :: "Decider \<Rightarrow> string \<Rightarrow> error \<Rightarrow> panic + bool" where
  "call_Decider f fullMethodName err =
     (case f of None \<Rightarrow> Inl NilDereference | Some g \<Rightarrow> Inr (g fullMethodName err))"

text \<open>
  The two exported defaults. They are package variables; \<open>defaultOptions\<close> is initialised
  with the values given here.
\<close>

definition DefaultCodeToLevelFunc :: CodeToLevel where
  "DefaultCodeToLevelFunc = Some (\<lambda>code. if code = OK then InfoLevel else ErrorLevel)"

definition DefaultDeciderFunc :: Decider where
  "DefaultDeciderFunc = Some (\<lambda>fullMethodName err. True)"

subsection \<open>The options record and the heap\<close>

text \<open>
  \<open>loggableEvents\<close> is a slice. No statement of the file writes an element of a slice,
  so a slice is modelled by the sequence of its elements; the \<open>nil\<close> slice and the empty
  slice are both \<open>[]\<close>.
\<close>

record options =
  levelFunc :: CodeToLevel
  shouldLog :: Decider
  loggableEvents :: "LoggableEvent list"

text \<open>
  A \<open>*options\<close> is \<open>nil\<close> or the address of a record in the heap. The heap only grows
  (Go is garbage collected), so an address is an index into the list of allocated
  records. The state also holds the package variable \<open>defaultOptions\<close>.
\<close>

type_synonym ptr = "nat option"

record state =
  heap :: "options list"
  defaultOptions :: ptr

definition load :: "ptr \<Rightarrow> state \<Rightarrow> panic + options" where
  "load p s =
     (case p of
        None \<Rightarrow> Inl NilDereference
      | Some a \<Rightarrow> if a < length (heap s) then Inr (heap s ! a) else Inl InvalidAddress)"

definition modify :: "ptr \<Rightarrow> (options \<Rightarrow> options) \<Rightarrow> state \<Rightarrow> panic + state" where
  "modify p u s =
     (case p of
        None \<Rightarrow> Inl NilDereference
      | Some a \<Rightarrow>
          if a < length (heap s) then Inr (s\<lparr>heap := (heap s)[a := u (heap s ! a)]\<rparr>)
          else Inl InvalidAddress)"

text \<open>\<open>&options{...}\<close>: a new record in the heap and its address.\<close>

definition new :: "options \<Rightarrow> state \<Rightarrow> ptr \<times> state" where
  "new r s = (Some (length (heap s)), s\<lparr>heap := heap s @ [r]\<rparr>)"

text \<open>\<open>options{}\<close>: every field has its zero value.\<close>

definition zero_options :: options where
  "zero_options = \<lparr>levelFunc = None, shouldLog = None, loggableEvents = []\<rparr>"

text \<open>
  The initialiser of \<open>defaultOptions\<close> (lines 44 to 48) and the state after package
  initialisation.
\<close>

definition defaultOptions_init :: options where
  "defaultOptions_init =
     \<lparr>levelFunc = DefaultCodeToLevelFunc,
      shouldLog = DefaultDeciderFunc,
      loggableEvents = [StartCall, FinishCall]\<rparr>"

definition package_init :: state where
  "package_init =
     (case new defaultOptions_init \<lparr>heap = [], defaultOptions = None\<rparr> of
        (p, s) \<Rightarrow> s\<lparr>defaultOptions := p\<rparr>)"

subsection \<open>Override closures\<close>

text \<open>
  \<open>type Option func(*options)\<close>: \<open>nil\<close> or a closure that takes a pointer and changes the
  state, or panics. Each constructor returns a closure with one assignment through the
  pointer.
\<close>

type_synonym Option = "(ptr \<Rightarrow> state \<Rightarrow> panic + state) option"

definition call_Option :: "Option \<Rightarrow> ptr \<Rightarrow> state \<Rightarrow> panic + state" where
  "call_Option opt p s = (case opt of None \<Rightarrow> Inl NilDereference | Some g \<Rightarrow> g p s)"

definition WithLevels :: "CodeToLevel \<Rightarrow> Option" where
  "WithLevels f = Some (\<lambda>p. modify p (\<lambda>r. r\<lparr>levelFunc := f\<rparr>))"

definition WithDecider :: "Decider \<Rightarrow> Option" where
  "WithDecider f = Some (\<lambda>p. modify p (\<lambda>r. r\<lparr>shouldLog := f\<rparr>))"

definition WithLogOnEvents :: "LoggableEvent list \<Rightarrow> Option" where
  "WithLogOnEvents events = Some (\<lambda>p. modify p (\<lambda>r. r\<lparr>loggableEvents := events\<rparr>))"

subsection \<open>evaluateOptions\<close>

text \<open>The loop \<open>for _, o := range opts { o(optCopy) }\<close>; a panic ends it.\<close>

fun range_opts :: "Option list \<Rightarrow> ptr \<Rightarrow> state \<Rightarrow> panic + state" where
  "range_opts [] optCopy s = Inr s"
| "range_opts (opt # opts) optCopy s =
     (case call_Option opt optCopy s of
        Inl e \<Rightarrow> Inl e
      | Inr s' \<Rightarrow> range_opts opts optCopy s')"

text \<open>
  \<open>optCopy := &options{}\<close>, then \<open>*optCopy = *defaultOptions\<close>, the loop, and the
  pointer is returned (with the state the call leaves).
\<close>

definition evaluateOptions :: "Option list \<Rightarrow> state \<Rightarrow> panic + (ptr \<times> state)" where
  "evaluateOptions opts s =
     (case new zero_options s of
        (optCopy, s1) \<Rightarrow>
          (case load (defaultOptions s1) s1 of
             Inl e \<Rightarrow> Inl e
           | Inr d \<Rightarrow>
               (case modify optCopy (\<lambda>r. d) s1 of
                  Inl e \<Rightarrow> Inl e
                | Inr s2 \<Rightarrow>
                    (case range_opts opts optCopy s2 of
                       Inl e \<Rightarrow> Inl e
                     | Inr s3 \<Rightarrow> Inr (optCopy, s3)))))"

subsection \<open>Directives\<close>

text \<open>
  The specification speaks of a sequence of override directives handed to \<open>Build\<close>, with
  the constructors \<open>SetSeverityMapper\<close>, \<open>SetSuppressionRule\<close> and \<open>SetLoggableEvents\<close>.
  A \<open>directive\<close> names one call of a constructor; \<open>directive_Option\<close> is the closure
  the source's constructor returns for it.
\<close>

datatype directive =
  SetSeverityMapper CodeToLevel
| SetSuppressionRule Decider
| SetLoggableEvents "LoggableEvent list"

fun directive_Option :: "directive \<Rightarrow> Option" where
  "directive_Option (SetSeverityMapper f) = WithLevels f"
| "directive_Option (SetSuppressionRule f) = WithDecider f"
| "directive_Option (SetLoggableEvents events) = WithLogOnEvents events"

text \<open>
  Last-write-wins, in the specification's words: each field of the snapshot is the value
  supplied by the last directive of the sequence that targets the field, and the default
  when no directive targets it.
\<close>

fun severity_mapper_of :: "directive \<Rightarrow> CodeToLevel option" where
  "severity_mapper_of (SetSeverityMapper f) = Some f"
| "severity_mapper_of _ = None"

fun suppression_rule_of :: "directive \<Rightarrow> Decider option" where
  "suppression_rule_of (SetSuppressionRule f) = Some f"
| "suppression_rule_of _ = None"

fun event_set_of :: "directive \<Rightarrow> LoggableEvent list option" where
  "event_set_of (SetLoggableEvents events) = Some events"
| "event_set_of _ = None"

fun last_targeting :: "('d \<Rightarrow> 'v option) \<Rightarrow> 'd list \<Rightarrow> 'v option" where
  "last_targeting supplied [] = None"
| "last_targeting supplied (d # ds) =
     (case last_targeting supplied ds of Some v \<Rightarrow> Some v | None \<Rightarrow> supplied d)"

definition spec_last_write_wins :: "directive list \<Rightarrow> options \<Rightarrow> options" where
  "spec_last_write_wins ds dflt =
     \<lparr>levelFunc =
        (case last_targeting severity_mapper_of ds of None \<Rightarrow> levelFunc dflt | Some f \<Rightarrow> f),
      shouldLog =
        (case last_targeting suppression_rule_of ds of None \<Rightarrow> shouldLog dflt | Some f \<Rightarrow> f),
      loggableEvents =
        (case last_targeting event_set_of ds of
           None \<Rightarrow> loggableEvents dflt
         | Some events \<Rightarrow> events)\<rparr>"

subsection \<open>Auxiliary notions for the proofs\<close>

text \<open>
  The record behind \<open>defaultOptions\<close> holds the values it was initialised with. This is
  true after package initialisation and kept by every call of \<open>evaluateOptions\<close> with
  directives (shown below).
\<close>

definition intact :: "state \<Rightarrow> bool" where
  "intact s = (load (defaultOptions s) s = Inr defaultOptions_init)"

text \<open>A closure whose body replaces the record behind its argument by \<open>u\<close> of it.\<close>

definition assigning :: "(options \<Rightarrow> options) \<Rightarrow> Option" where
  "assigning u = Some (\<lambda>p. modify p u)"

text \<open>What the closure of a directive does to the record it is given.\<close>

fun effect :: "directive \<Rightarrow> options \<Rightarrow> options" where
  "effect (SetSeverityMapper f) = (\<lambda>r. r\<lparr>levelFunc := f\<rparr>)"
| "effect (SetSuppressionRule f) = (\<lambda>r. r\<lparr>shouldLog := f\<rparr>)"
| "effect (SetLoggableEvents events) = (\<lambda>r. r\<lparr>loggableEvents := events\<rparr>)"

section \<open>Properties\<close>

subsection \<open>The loop and the copy\<close>

lemma directive_Option_assigning: "directive_Option x = assigning (effect x)"
  by (cases x) (simp_all add: assigning_def WithLevels_def WithDecider_def WithLogOnEvents_def)

lemma call_assigning: "call_Option (assigning u) p s = modify p u s"
  by (simp add: call_Option_def assigning_def)

lemma range_assigning:
  "a < length (heap s) \<Longrightarrow>
   range_opts (map assigning us) (Some a) s =
     Inr (s\<lparr>heap := (heap s)[a := fold id us (heap s ! a)]\<rparr>)"
proof (induction us arbitrary: s)
  case Nil
  then show ?case by simp
next
  case (Cons u us)
  then show ?case by (simp add: call_assigning modify_def)
qed

lemma evaluateOptions_assigning:
  assumes "load (defaultOptions s) s = Inr d"
  shows "evaluateOptions (map assigning us) s =
           Inr (Some (length (heap s)), s\<lparr>heap := heap s @ [fold id us d]\<rparr>)"
proof -
  obtain a where a: "defaultOptions s = Some a" "a < length (heap s)" "heap s ! a = d"
    using assms by (auto simp: load_def split: option.splits if_splits)
  show ?thesis
    using a
    by (simp add: evaluateOptions_def new_def load_def modify_def range_assigning nth_append)
qed

lemma map_directive_Option: "map directive_Option ds = map assigning (map effect ds)"
  by (simp add: directive_Option_assigning)

lemma evaluateOptions_directives:
  assumes "load (defaultOptions s) s = Inr d"
  shows "evaluateOptions (map directive_Option ds) s =
           Inr (Some (length (heap s)), s\<lparr>heap := heap s @ [fold effect ds d]\<rparr>)"
  using evaluateOptions_assigning [OF assms, of "map effect ds"]
  by (simp add: map_directive_Option fold_map comp_def)

lemma load_new: "load (Some (length (heap s))) (s\<lparr>heap := heap s @ [r]\<rparr>) = Inr r"
  by (simp add: load_def)

lemma load_old:
  "load (Some a) s = Inr r \<Longrightarrow> load (Some a) (s\<lparr>heap := heap s @ [r']\<rparr>) = Inr r"
  by (auto simp: load_def nth_append split: if_splits)

lemma fold_effect: "fold effect ds d = spec_last_write_wins ds d"
proof (induction ds arbitrary: d)
  case Nil
  show ?case by (simp add: spec_last_write_wins_def)
next
  case (Cons x ds)
  show ?case
    by (cases x) (simp_all add: Cons.IH spec_last_write_wins_def split: option.splits)
qed

lemma package_init_intact: "intact package_init"
  by (simp add: intact_def package_init_def new_def load_def)

lemma last_targeting_None: "last_targeting supplied ds = None \<longleftrightarrow> (\<forall>d \<in> set ds. supplied d = None)"
  by (induction ds) (auto split: option.splits)

lemma last_targeting_append:
  "last_targeting supplied (pre @ d # post) =
     (case last_targeting supplied post of Some v \<Rightarrow> Some v | None \<Rightarrow>
        (case supplied d of Some v \<Rightarrow> Some v | None \<Rightarrow> last_targeting supplied pre))"
  by (induction pre) (auto split: option.splits)

lemma effect_idem: "effect x (effect x r) = effect x r"
  by (cases x) simp_all

lemma fold_effect_twice:
  "fold effect (pre @ [x, x] @ post) d = fold effect (pre @ [x] @ post) d"
  by (simp add: effect_idem)

lemma modify_assign:
  "load p s = Inr r \<Longrightarrow>
   \<exists>s'. modify p u s = Inr s' \<and> defaultOptions s' = defaultOptions s \<and>
     (\<forall>q. load q s' = (if q = p then Inr (u r) else load q s))"
  by (cases p) (auto simp: load_def modify_def split: if_splits option.splits)

text \<open>A \<open>nil\<close> closure in the list makes the loop panic.\<close>

lemma evaluateOptions_nil_Option: "evaluateOptions [None] package_init = Inl NilDereference"
  by (simp add: evaluateOptions_def package_init_def new_def load_def modify_def
      call_Option_def)

subsection \<open>Last write wins\<close>

text \<open>
  C1. For every sequence of directives given to \<open>evaluateOptions\<close>, each field of the
  snapshot it returns is the value supplied by the last directive of the sequence that
  targets the field, and the default when no directive targets it. The value of a field
  depends on the directives targeting that field only, so directives for one field do not
  change the other two.
\<close>

theorem evaluateOptions_last_write_wins:
  "intact s \<Longrightarrow>
   \<exists>p s' r. evaluateOptions (map directive_Option ds) s = Inr (p, s') \<and> load p s' = Inr r \<and>
     r = spec_last_write_wins ds defaultOptions_init \<and>
     levelFunc r =
       (case last_targeting severity_mapper_of ds of
          None \<Rightarrow> DefaultCodeToLevelFunc | Some f \<Rightarrow> f) \<and>
     shouldLog r =
       (case last_targeting suppression_rule_of ds of
          None \<Rightarrow> DefaultDeciderFunc | Some f \<Rightarrow> f) \<and>
     loggableEvents r =
       (case last_targeting event_set_of ds of
          None \<Rightarrow> [StartCall, FinishCall] | Some events \<Rightarrow> events)"
  by (simp add: intact_def evaluateOptions_directives load_new fold_effect)
    (simp add: spec_last_write_wins_def defaultOptions_init_def split: option.splits)

theorem evaluateOptions_last_write_wins_witness:
  "intact package_init \<and>
   (\<exists>p s' r.
      evaluateOptions
        (map directive_Option
          [SetLoggableEvents [PayloadSent], SetSeverityMapper None,
           SetLoggableEvents [PayloadReceived, StartCall],
           SetSeverityMapper (Some (\<lambda>code. ErrorLevel))]) package_init = Inr (p, s') \<and>
      load p s' = Inr r \<and>
      levelFunc r = Some (\<lambda>code. ErrorLevel) \<and>
      shouldLog r = DefaultDeciderFunc \<and>
      loggableEvents r = [PayloadReceived, StartCall])"
  using evaluateOptions_last_write_wins [of package_init
      "[SetLoggableEvents [PayloadSent], SetSeverityMapper None,
        SetLoggableEvents [PayloadReceived, StartCall],
        SetSeverityMapper (Some (\<lambda>code. ErrorLevel))]"]
    package_init_intact
  by auto

subsection \<open>The defaults\<close>

text \<open>
  C2. \<open>evaluateOptions\<close> on the empty list returns a snapshot with the documented
  defaults: its \<open>levelFunc\<close> gives \<open>InfoLevel\<close> for \<open>OK\<close> and \<open>ErrorLevel\<close> for every
  other code, its \<open>shouldLog\<close> gives true for every method name and error, and its
  \<open>loggableEvents\<close> is the sequence \<open>StartCall, FinishCall\<close>.
\<close>

theorem evaluateOptions_empty_defaults:
  "intact s \<Longrightarrow>
   \<exists>p s' r. evaluateOptions [] s = Inr (p, s') \<and> load p s' = Inr r \<and>
     (\<forall>code. call_CodeToLevel (levelFunc r) code =
        Inr (if code = OK then InfoLevel else ErrorLevel)) \<and>
     (\<forall>fullMethodName err. call_Decider (shouldLog r) fullMethodName err = Inr True) \<and>
     loggableEvents r = [StartCall, FinishCall]"
  using evaluateOptions_directives [of s defaultOptions_init "[]"]
  by (simp add: intact_def load_new defaultOptions_init_def call_CodeToLevel_def
      call_Decider_def DefaultCodeToLevelFunc_def DefaultDeciderFunc_def)

theorem evaluateOptions_empty_defaults_witness:
  "intact package_init \<and>
   (\<exists>p s' r. evaluateOptions [] package_init = Inr (p, s') \<and> load p s' = Inr r \<and>
      call_CodeToLevel (levelFunc r) OK = Inr InfoLevel \<and>
      call_CodeToLevel (levelFunc r) NotFound = Inr ErrorLevel \<and>
      call_Decider (shouldLog r) ''/svc/Method'' None = Inr True \<and>
      loggableEvents r = [StartCall, FinishCall])"
  using evaluateOptions_empty_defaults [of package_init] package_init_intact
  by (auto simp: OK_def NotFound_def)

text \<open>
  C3. \<open>DefaultCodeToLevelFunc\<close> returns a level for every status code, without a panic:
  \<open>InfoLevel\<close> when the code is \<open>OK\<close> and \<open>ErrorLevel\<close> for every other code (for
  \<open>NotFound\<close>, say); the two levels differ.
\<close>

theorem DefaultCodeToLevelFunc_levels:
  "call_CodeToLevel DefaultCodeToLevelFunc code =
     Inr (if code = OK then InfoLevel else ErrorLevel) \<and>
   call_CodeToLevel DefaultCodeToLevelFunc OK = Inr InfoLevel \<and>
   call_CodeToLevel DefaultCodeToLevelFunc NotFound = Inr ErrorLevel \<and>
   InfoLevel \<noteq> ErrorLevel"
  by (simp add: call_CodeToLevel_def DefaultCodeToLevelFunc_def OK_def NotFound_def
      InfoLevel_def ErrorLevel_def)

text \<open>
  C4. \<open>DefaultDeciderFunc\<close> returns true for every full method name and every error,
  the \<open>nil\<close> error included.
\<close>

theorem DefaultDeciderFunc_true:
  "call_Decider DefaultDeciderFunc fullMethodName err = Inr True \<and>
   call_Decider DefaultDeciderFunc fullMethodName None = Inr True"
  by (simp add: call_Decider_def DefaultDeciderFunc_def)

subsection \<open>The event sequence is replaced\<close>

text \<open>
  C5. After \<open>evaluateOptions\<close> with the single directive \<open>WithLogOnEvents E\<close>, the stored
  \<open>loggableEvents\<close> is \<open>E\<close>, so an event is a member of the stored sequence exactly when
  it is in \<open>E\<close>; with \<open>E\<close> the single event \<open>PayloadSent\<close>, \<open>StartCall\<close> is not in the
  stored sequence and \<open>PayloadSent\<close> is.
\<close>

theorem WithLogOnEvents_replaces:
  "intact s \<Longrightarrow>
   (\<exists>p s' r. evaluateOptions [WithLogOnEvents E] s = Inr (p, s') \<and> load p s' = Inr r \<and>
      loggableEvents r = E \<and> (\<forall>e. (e \<in> set (loggableEvents r)) = (e \<in> set E))) \<and>
   (\<exists>p s' r. evaluateOptions [WithLogOnEvents [PayloadSent]] s = Inr (p, s') \<and>
      load p s' = Inr r \<and>
      StartCall \<notin> set (loggableEvents r) \<and> PayloadSent \<in> set (loggableEvents r))"
  using evaluateOptions_directives [of s defaultOptions_init "[SetLoggableEvents E]"]
    evaluateOptions_directives [of s defaultOptions_init "[SetLoggableEvents [PayloadSent]]"]
  by (simp add: intact_def load_new StartCall_def PayloadSent_def)

theorem WithLogOnEvents_replaces_witness:
  "intact package_init \<and>
   (\<exists>p s' r. evaluateOptions [WithLogOnEvents [PayloadReceived, FinishCall]] package_init
        = Inr (p, s') \<and> load p s' = Inr r \<and>
      loggableEvents r = [PayloadReceived, FinishCall] \<and>
      StartCall \<notin> set (loggableEvents r) \<and> FinishCall \<in> set (loggableEvents r))"
  using WithLogOnEvents_replaces [of package_init "[PayloadReceived, FinishCall]"]
    package_init_intact
  by (auto simp: StartCall_def FinishCall_def PayloadReceived_def)

subsection \<open>Idempotence\<close>

text \<open>
  C6. A directive (any of \<open>WithLevels f\<close>, \<open>WithDecider f\<close>, \<open>WithLogOnEvents E\<close>)
  that occurs twice in a row in the list given to \<open>evaluateOptions\<close> yields the same
  snapshot as the list with the directive once: both calls return the same pointer and
  leave the same state.
\<close>

theorem directive_idempotent:
  "intact s \<Longrightarrow>
   \<exists>p s' r.
     evaluateOptions (map directive_Option (pre @ [x, x] @ post)) s = Inr (p, s') \<and>
     evaluateOptions (map directive_Option (pre @ [x] @ post)) s = Inr (p, s') \<and>
     load p s' = Inr r"
proof -
  assume "intact s"
  then have d: "load (defaultOptions s) s = Inr defaultOptions_init"
    by (simp add: intact_def)
  let ?r = "fold effect (pre @ [x] @ post) defaultOptions_init"
  let ?s' = "s\<lparr>heap := heap s @ [?r]\<rparr>"
  have twice: "evaluateOptions (map directive_Option (pre @ [x, x] @ post)) s =
      Inr (Some (length (heap s)), ?s')"
    using evaluateOptions_directives [OF d, of "pre @ [x, x] @ post"]
    by (simp only: fold_effect_twice)
  have once: "evaluateOptions (map directive_Option (pre @ [x] @ post)) s =
      Inr (Some (length (heap s)), ?s')"
    by (rule evaluateOptions_directives [OF d])
  have "load (Some (length (heap s))) ?s' = Inr ?r"
    by (rule load_new)
  with twice once show ?thesis
    by (intro exI conjI)
qed

theorem directive_idempotent_witness:
  "intact package_init \<and>
   (\<exists>p s' r.
      evaluateOptions [WithDecider None, WithLogOnEvents [PayloadSent],
        WithLogOnEvents [PayloadSent]] package_init = Inr (p, s') \<and>
      evaluateOptions [WithDecider None, WithLogOnEvents [PayloadSent]] package_init
        = Inr (p, s') \<and>
      load p s' = Inr r)"
  using directive_idempotent [of package_init "[SetSuppressionRule None]"
      "SetLoggableEvents [PayloadSent]" "[]"] package_init_intact
  by simp

subsection \<open>One field for each constructor\<close>

text \<open>
  C7. The closure of each constructor, run on a pointer to a record, changes one field
  of the record: \<open>WithLevels\<close> sets \<open>levelFunc\<close>, \<open>WithDecider\<close> sets \<open>shouldLog\<close>,
  \<open>WithLogOnEvents\<close> sets \<open>loggableEvents\<close>; the other two fields keep their values,
  and so do every other record and the variable \<open>defaultOptions\<close>.
\<close>

theorem constructors_one_field:
  "load p s = Inr r \<Longrightarrow>
   (\<exists>s' r'. call_Option (WithLevels f) p s = Inr s' \<and> load p s' = Inr r' \<and>
      levelFunc r' = f \<and> shouldLog r' = shouldLog r \<and>
      loggableEvents r' = loggableEvents r \<and>
      defaultOptions s' = defaultOptions s \<and>
      (\<forall>q. load q s' = (if q = p then Inr r' else load q s))) \<and>
   (\<exists>s' r'. call_Option (WithDecider g) p s = Inr s' \<and> load p s' = Inr r' \<and>
      levelFunc r' = levelFunc r \<and> shouldLog r' = g \<and>
      loggableEvents r' = loggableEvents r \<and>
      defaultOptions s' = defaultOptions s \<and>
      (\<forall>q. load q s' = (if q = p then Inr r' else load q s))) \<and>
   (\<exists>s' r'. call_Option (WithLogOnEvents events) p s = Inr s' \<and> load p s' = Inr r' \<and>
      levelFunc r' = levelFunc r \<and> shouldLog r' = shouldLog r \<and>
      loggableEvents r' = events \<and>
      defaultOptions s' = defaultOptions s \<and>
      (\<forall>q. load q s' = (if q = p then Inr r' else load q s)))"
proof -
  assume r: "load p s = Inr r"
  have lev: "call_Option (WithLevels f) p s = modify p (\<lambda>r. r\<lparr>levelFunc := f\<rparr>) s"
    by (simp add: call_Option_def WithLevels_def)
  have dec: "call_Option (WithDecider g) p s = modify p (\<lambda>r. r\<lparr>shouldLog := g\<rparr>) s"
    by (simp add: call_Option_def WithDecider_def)
  have evs: "call_Option (WithLogOnEvents events) p s =
      modify p (\<lambda>r. r\<lparr>loggableEvents := events\<rparr>) s"
    by (simp add: call_Option_def WithLogOnEvents_def)
  show ?thesis
    using modify_assign [OF r, of "\<lambda>r. r\<lparr>levelFunc := f\<rparr>"]
      modify_assign [OF r, of "\<lambda>r. r\<lparr>shouldLog := g\<rparr>"]
      modify_assign [OF r, of "\<lambda>r. r\<lparr>loggableEvents := events\<rparr>"]
    unfolding lev dec evs by auto
qed

theorem constructors_one_field_witness:
  "load (Some 0) package_init = Inr defaultOptions_init \<and>
   (\<exists>s' r'. call_Option (WithLevels None) (Some 0) package_init = Inr s' \<and>
      load (Some 0) s' = Inr r' \<and>
      levelFunc r' = None \<and> shouldLog r' = DefaultDeciderFunc \<and>
      loggableEvents r' = [StartCall, FinishCall]) \<and>
   (\<exists>s' r'. call_Option (WithDecider None) (Some 0) package_init = Inr s' \<and>
      load (Some 0) s' = Inr r' \<and>
      levelFunc r' = DefaultCodeToLevelFunc \<and> shouldLog r' = None \<and>
      loggableEvents r' = [StartCall, FinishCall]) \<and>
   (\<exists>s' r'. call_Option (WithLogOnEvents [PayloadSent]) (Some 0) package_init = Inr s' \<and>
      load (Some 0) s' = Inr r' \<and>
      levelFunc r' = DefaultCodeToLevelFunc \<and> shouldLog r' = DefaultDeciderFunc \<and>
      loggableEvents r' = [PayloadSent])"
proof -
  have h: "load (Some 0) package_init = Inr defaultOptions_init"
    by (simp add: package_init_def new_def load_def)
  show ?thesis
    using h constructors_one_field [OF h, of None None "[PayloadSent]"]
    by (simp add: defaultOptions_init_def) blast
qed

subsection \<open>The defaults are not touched\<close>

text \<open>
  C8. For every list of directives, after \<open>evaluateOptions\<close> returns, the variable
  \<open>defaultOptions\<close> and the record it points to are unchanged (the record still holds
  the initial defaults), the returned pointer is not \<open>defaultOptions\<close>, every record
  allocated before the call is unchanged, and a following call with the empty list
  returns the documented defaults.
\<close>

theorem evaluateOptions_keeps_defaultOptions:
  "intact s \<Longrightarrow>
   \<exists>p s'. evaluateOptions (map directive_Option ds) s = Inr (p, s') \<and>
     defaultOptions s' = defaultOptions s \<and>
     load (defaultOptions s') s' = load (defaultOptions s) s \<and>
     load (defaultOptions s') s' = Inr defaultOptions_init \<and>
     p \<noteq> defaultOptions s \<and>
     take (length (heap s)) (heap s') = heap s \<and>
     (\<exists>q s'' r. evaluateOptions [] s' = Inr (q, s'') \<and> load q s'' = Inr r \<and>
        levelFunc r = DefaultCodeToLevelFunc \<and> shouldLog r = DefaultDeciderFunc \<and>
        loggableEvents r = [StartCall, FinishCall])"
proof -
  assume i: "intact s"
  then have d: "load (defaultOptions s) s = Inr defaultOptions_init"
    by (simp add: intact_def)
  then obtain a where a: "defaultOptions s = Some a" "a < length (heap s)"
    by (auto simp: load_def split: option.splits if_splits)
  let ?s' = "s\<lparr>heap := heap s @ [fold effect ds defaultOptions_init]\<rparr>"
  have e: "evaluateOptions (map directive_Option ds) s = Inr (Some (length (heap s)), ?s')"
    by (rule evaluateOptions_directives [OF d])
  have d': "load (defaultOptions ?s') ?s' = Inr defaultOptions_init"
    using d a load_old [of a s defaultOptions_init] by simp
  have e': "evaluateOptions [] ?s' =
      Inr (Some (length (heap ?s')), ?s'\<lparr>heap := heap ?s' @ [defaultOptions_init]\<rparr>)"
    using evaluateOptions_directives [OF d', of "[]"] by simp
  have same: "defaultOptions ?s' = defaultOptions s"
    by simp
  have unchanged: "load (defaultOptions ?s') ?s' = load (defaultOptions s) s"
    using d d' by simp
  have fresh: "Some (length (heap s)) \<noteq> defaultOptions s"
    using a by simp
  have old: "take (length (heap s)) (heap ?s') = heap s"
    by simp
  show ?thesis
    by (intro exI conjI, rule e, rule same, rule unchanged, rule d', rule fresh, rule old, rule e',
        rule load_new) (simp_all add: defaultOptions_init_def)
qed

theorem evaluateOptions_keeps_defaultOptions_witness:
  "intact package_init \<and>
   (\<exists>p s'. evaluateOptions
        [WithLogOnEvents [], WithLevels None, WithDecider None] package_init = Inr (p, s') \<and>
      defaultOptions s' = defaultOptions package_init \<and>
      load (defaultOptions s') s' = Inr defaultOptions_init \<and>
      p \<noteq> defaultOptions package_init)"
  using evaluateOptions_keeps_defaultOptions [of package_init
      "[SetLoggableEvents [], SetSeverityMapper None, SetSuppressionRule None]"]
    package_init_intact
  by auto

subsection \<open>No failure\<close>

text \<open>
  C9. \<open>evaluateOptions\<close> is a total function (its loop is a structural recursion over
  the list) and it does not panic: in a state where \<open>defaultOptions\<close> points to a
  record, as it does from package initialisation on, it returns a pointer to a record
  for every list of directives, and more generally for every list of closures that
  replace the record behind their argument by a total function of it.
\<close>

theorem evaluateOptions_returns:
  "load (defaultOptions s) s = Inr d \<Longrightarrow>
   (\<exists>p s' r. evaluateOptions (map directive_Option ds) s = Inr (p, s') \<and> load p s' = Inr r) \<and>
   (\<exists>p s' r. evaluateOptions (map assigning us) s = Inr (p, s') \<and> load p s' = Inr r)"
  by (simp add: evaluateOptions_directives evaluateOptions_assigning load_new)

theorem evaluateOptions_returns_witness:
  "load (defaultOptions package_init) package_init = Inr defaultOptions_init \<and>
   (\<exists>p s' r. evaluateOptions [WithLevels None, WithLogOnEvents [PayloadSent, PayloadSent]]
        package_init = Inr (p, s') \<and> load p s' = Inr r)"
proof -
  have h: "load (defaultOptions package_init) package_init = Inr defaultOptions_init"
    by (simp add: package_init_def new_def load_def)
  show ?thesis
    using h evaluateOptions_returns [OF h,
        of "[SetSeverityMapper None, SetLoggableEvents [PayloadSent, PayloadSent]]" "[]"]
    by simp
qed

subsection \<open>No events\<close>

text \<open>
  C10. \<open>WithLogOnEvents\<close> with no event gives a snapshot whose \<open>loggableEvents\<close> is
  empty, so no event is a member of it, whereas the empty list of directives gives the
  default sequence \<open>StartCall, FinishCall\<close>.
\<close>

theorem WithLogOnEvents_no_events:
  "intact s \<Longrightarrow>
   (\<exists>p s' r. evaluateOptions [WithLogOnEvents []] s = Inr (p, s') \<and> load p s' = Inr r \<and>
      loggableEvents r = [] \<and> (\<forall>e. e \<notin> set (loggableEvents r))) \<and>
   (\<exists>p s' r. evaluateOptions [] s = Inr (p, s') \<and> load p s' = Inr r \<and>
      loggableEvents r = [StartCall, FinishCall] \<and>
      StartCall \<in> set (loggableEvents r) \<and> FinishCall \<in> set (loggableEvents r))"
  using evaluateOptions_directives [of s defaultOptions_init "[SetLoggableEvents []]"]
    evaluateOptions_directives [of s defaultOptions_init "[]"]
  by (simp add: intact_def load_new defaultOptions_init_def)

theorem WithLogOnEvents_no_events_witness:
  "intact package_init \<and>
   (\<exists>p s' r. evaluateOptions [WithLogOnEvents []] package_init = Inr (p, s') \<and>
      load p s' = Inr r \<and> StartCall \<notin> set (loggableEvents r) \<and>
      FinishCall \<notin> set (loggableEvents r)) \<and>
   (\<exists>p s' r. evaluateOptions [] package_init = Inr (p, s') \<and> load p s' = Inr r \<and>
      loggableEvents r = [StartCall, FinishCall])"
  using WithLogOnEvents_no_events [of package_init] package_init_intact
  by auto

end
